theory Spec2Isabelle
  imports Complex_Main
begin

section \<open>Data model of the proxy\<close>

text \<open>
  The proxy translates between the Responses API (spoken by the agent CLI) and the
  Chat Completions API (spoken by the upstream service). The types below follow the
  declarations of \<^verbatim>\<open>types/chat-completions.ts\<close> and \<^verbatim>\<open>types/responses-api.ts\<close>.
  A field that is optional in TypeScript (\<^verbatim>\<open>f?: T\<close>) or nullable is an \<open>option\<close>;
  a union of string literals is a datatype; a field whose type is a single literal
  (\<^verbatim>\<open>type: "message"\<close>, \<^verbatim>\<open>role: "assistant"\<close>, \<^verbatim>\<open>object: "response"\<close>) carries no
  information and is left out. Whole numbers (token counters, timestamps) are \<open>int\<close>,
  the sampling parameters \<open>real\<close>. Console logging is not modelled.
\<close>

subsection \<open>JavaScript truthiness of optional strings\<close>

text \<open>\<^verbatim>\<open>if (s)\<close> on a value of type \<^verbatim>\<open>string | undefined | null\<close>: false for
  \<^verbatim>\<open>undefined\<close>, \<^verbatim>\<open>null\<close> and the empty string.\<close>

fun str_truthy :: "string option \<Rightarrow> bool" where
  "str_truthy None = False"
| "str_truthy (Some s) = (s \<noteq> [])"

subsection \<open>Chat Completions side: streaming chunks\<close>

text \<open>\<^verbatim>\<open>finish_reason: "stop" | "length" | "tool_calls" | "content_filter" | null\<close>\<close>

datatype finish_reason = Stop | Length | Tool_calls | Content_filter

fun finish_reason_str :: "finish_reason \<Rightarrow> string" where
  "finish_reason_str Stop = ''stop''"
| "finish_reason_str Length = ''length''"
| "finish_reason_str Tool_calls = ''tool_calls''"
| "finish_reason_str Content_filter = ''content_filter''"

text \<open>\<^verbatim>\<open>ChatDelta\<close>: only \<^verbatim>\<open>content\<close> is read by the translators.\<close>

record chat_delta =
  delta_content :: "string option"

record chat_stream_choice =
  sc_index :: nat
  sc_delta :: chat_delta
  sc_finish_reason :: "finish_reason option"

record chat_stream_chunk =
  chunk_id :: string
  chunk_created :: int
  chunk_model :: string
  chunk_choices :: "chat_stream_choice list"

subsection \<open>Responses side: responses and stream events\<close>

record responses_output_text =
  ot_text :: string

record responses_output_message =
  msg_id :: string
  msg_content :: "responses_output_text list"

datatype item_status = Item_in_progress | Item_completed

record responses_output_item =
  item_id :: string
  item_content :: "responses_output_text list"
  item_status :: "item_status option"

record responses_usage =
  input_tokens :: int
  output_tokens :: int
  total_tokens :: int

record error_info =
  err_code :: string
  err_message :: string

datatype response_status = Completed | Failed | In_progress | Cancelled

record responses_api_response =
  resp_id :: string
  resp_created_at :: int
  resp_model :: string
  resp_status :: response_status
  resp_output :: "responses_output_message list"
  resp_usage :: responses_usage
  resp_error :: "error_info option"

text \<open>The \<^verbatim>\<open>type\<close> tag of \<^verbatim>\<open>ResponsesStreamEvent\<close>, without the \<^verbatim>\<open>response.\<close> prefix.\<close>

datatype event_type =
  Ev_created | Ev_in_progress
| Ev_output_item_added | Ev_output_item_done
| Ev_content_part_added | Ev_content_part_done
| Ev_output_text_delta | Ev_output_text_done
| Ev_completed | Ev_done
| Ev_error

text \<open>\<^verbatim>\<open>ResponsesStreamEvent\<close> is one interface: a tag and optional payload fields.\<close>

record responses_stream_event =
  ev_type :: event_type
  ev_response :: "responses_api_response option"
  ev_output_index :: "nat option"
  ev_item :: "responses_output_item option"
  ev_content_index :: "nat option"
  ev_part :: "responses_output_text option"
  ev_delta :: "string option"
  ev_text :: "string option"
  ev_error :: "error_info option"

definition blank_event :: "event_type \<Rightarrow> responses_stream_event" where
  "blank_event t =
     \<lparr> ev_type = t, ev_response = None, ev_output_index = None, ev_item = None,
       ev_content_index = None, ev_part = None, ev_delta = None, ev_text = None,
       ev_error = None \<rparr>"

subsection \<open>The stream state\<close>

text \<open>The object returned by \<^verbatim>\<open>createStreamState\<close> (response-translator.js, 136-149).\<close>

record stream_state =
  responseId :: string
  messageId :: string
  contentPartId :: string
  model :: string
  createdAt :: int
  accumulatedText :: string
  inputTokens :: int
  outputTokens :: int
  hasStartedOutput :: bool
  hasAddedContentPart :: bool

section \<open>Stream event synthesis (response-translator.js)\<close>

text \<open>\<^verbatim>\<open>mapFinishReasonToStatus(finishReason: string | null)\<close>: a switch with a default.\<close>

definition mapFinishReasonToStatus :: "string option \<Rightarrow> response_status" where
  "mapFinishReasonToStatus finishReason =
     (if finishReason = Some ''stop'' \<or> finishReason = Some ''length''
         \<or> finishReason = Some ''tool_calls'' then Completed
      else if finishReason = Some ''content_filter'' then Failed
      else Completed)"

text \<open>
  \<^verbatim>\<open>createStreamState(model)\<close>. The three identifiers come from \<^verbatim>\<open>generateId\<close>
  (random and clock based) and the timestamp from the clock: they are parameters.
\<close>

definition createStreamState :: "string \<Rightarrow> string \<Rightarrow> string \<Rightarrow> string \<Rightarrow> int \<Rightarrow> stream_state" where
  "createStreamState mdl rid mid cpid now =
     \<lparr> responseId = rid, messageId = mid, contentPartId = cpid, model = mdl,
       createdAt = now, accumulatedText = '''', inputTokens = 0, outputTokens = 0,
       hasStartedOutput = False, hasAddedContentPart = False \<rparr>"

subsection \<open>Events built by \<^verbatim>\<open>translateStreamChunk\<close>\<close>

definition output_item_added_event :: "stream_state \<Rightarrow> responses_stream_event" where
  "output_item_added_event state =
     (blank_event Ev_output_item_added)
       \<lparr> ev_output_index := Some 0,
         ev_item := Some \<lparr> item_id = messageId state, item_content = [],
                           item_status = Some Item_in_progress \<rparr> \<rparr>"

definition content_part_added_event :: responses_stream_event where
  "content_part_added_event =
     (blank_event Ev_content_part_added)
       \<lparr> ev_output_index := Some 0, ev_content_index := Some 0,
         ev_part := Some \<lparr> ot_text = '''' \<rparr> \<rparr>"

definition output_text_delta_event :: "string \<Rightarrow> responses_stream_event" where
  "output_text_delta_event d =
     (blank_event Ev_output_text_delta)
       \<lparr> ev_output_index := Some 0, ev_content_index := Some 0, ev_delta := Some d \<rparr>"

definition output_text_done_event :: "stream_state \<Rightarrow> responses_stream_event" where
  "output_text_done_event state =
     (blank_event Ev_output_text_done)
       \<lparr> ev_output_index := Some 0, ev_content_index := Some 0,
         ev_text := Some (accumulatedText state) \<rparr>"

definition content_part_done_event :: "stream_state \<Rightarrow> responses_stream_event" where
  "content_part_done_event state =
     (blank_event Ev_content_part_done)
       \<lparr> ev_output_index := Some 0, ev_content_index := Some 0,
         ev_part := Some \<lparr> ot_text = accumulatedText state \<rparr> \<rparr>"

definition output_item_done_event :: "stream_state \<Rightarrow> responses_stream_event" where
  "output_item_done_event state =
     (blank_event Ev_output_item_done)
       \<lparr> ev_output_index := Some 0,
         ev_item := Some \<lparr> item_id = messageId state,
                           item_content = [\<lparr> ot_text = accumulatedText state \<rparr>],
                           item_status = Some Item_completed \<rparr> \<rparr>"

text \<open>\<^verbatim>\<open>finalResponse\<close> (lines 270-294); it has no \<^verbatim>\<open>error\<close> property.\<close>

definition finalResponse :: "finish_reason \<Rightarrow> stream_state \<Rightarrow> responses_api_response" where
  "finalResponse fr state =
     \<lparr> resp_id = responseId state, resp_created_at = createdAt state,
       resp_model = model state,
       resp_status = mapFinishReasonToStatus (Some (finish_reason_str fr)),
       resp_output = [\<lparr> msg_id = messageId state,
                        msg_content = [\<lparr> ot_text = accumulatedText state \<rparr>] \<rparr>],
       resp_usage = \<lparr> input_tokens = inputTokens state,
                      output_tokens = outputTokens state,
                      total_tokens = inputTokens state + outputTokens state \<rparr>,
       resp_error = None \<rparr>"

definition completed_event :: "finish_reason \<Rightarrow> stream_state \<Rightarrow> responses_stream_event" where
  "completed_event fr state =
     (blank_event Ev_completed) \<lparr> ev_response := Some (finalResponse fr state) \<rparr>"

definition done_event :: "finish_reason \<Rightarrow> stream_state \<Rightarrow> responses_stream_event" where
  "done_event fr state =
     (blank_event Ev_done) \<lparr> ev_response := Some (finalResponse fr state) \<rparr>"

subsection \<open>\<^verbatim>\<open>translateStreamChunk\<close> (response-translator.js, 165-307)\<close>

text \<open>
  The source mutates \<^verbatim>\<open>state\<close> in place and returns the events; the model returns the
  events together with the state after the call. The two \<^verbatim>\<open>if\<close> blocks of the source
  are the two steps below, run in the source's order.
\<close>

text \<open>Lines 172-208: \<^verbatim>\<open>if (choice.delta.content) { ... }\<close>.\<close>

definition content_step ::
  "chat_stream_choice \<Rightarrow> stream_state \<Rightarrow> responses_stream_event list \<times> stream_state" where
  "content_step choice state =
     (case delta_content (sc_delta choice) of
        None \<Rightarrow> ([], state)
      | Some content \<Rightarrow>
          if content = [] then ([], state)
          else
            let (opened, s1) =
                  (if \<not> hasStartedOutput state
                   then ([output_item_added_event state, content_part_added_event],
                         state \<lparr> hasStartedOutput := True, hasAddedContentPart := True \<rparr>)
                   else ([], state));
                s2 = s1 \<lparr> accumulatedText := accumulatedText s1 @ content \<rparr>
            in (opened @ [output_text_delta_event content], s2))"

text \<open>Lines 210-305: \<^verbatim>\<open>if (choice.finish_reason) { ... }\<close>. Every value of the
  declared type other than \<^verbatim>\<open>null\<close> is a non-empty string, hence truthy. The branch at
  212-234 sets \<^verbatim>\<open>hasStartedOutput\<close> only.\<close>

definition finish_step ::
  "chat_stream_choice \<Rightarrow> stream_state \<Rightarrow> responses_stream_event list \<times> stream_state" where
  "finish_step choice state =
     (case sc_finish_reason choice of
        None \<Rightarrow> ([], state)
      | Some fr \<Rightarrow>
          let (opened, s1) =
                (if \<not> hasStartedOutput state
                 then ([output_item_added_event state, content_part_added_event],
                       state \<lparr> hasStartedOutput := True \<rparr>)
                 else ([], state))
          in (opened @
              [output_text_done_event s1, content_part_done_event s1,
               output_item_done_event s1, completed_event fr s1, done_event fr s1],
              s1))"

definition translateStreamChunk ::
  "chat_stream_chunk \<Rightarrow> stream_state \<Rightarrow> responses_stream_event list \<times> stream_state" where
  "translateStreamChunk chunk state =
     (case chunk_choices chunk of
        [] \<Rightarrow> ([], state)
      | choice # _ \<Rightarrow>
          let (ev1, s1) = content_step choice state;
              (ev2, s2) = finish_step choice s1
          in (ev1 @ ev2, s2))"

subsection \<open>Stream-start events (response-translator.js, 311-349)\<close>

definition initial_response :: "stream_state \<Rightarrow> responses_api_response" where
  "initial_response state =
     \<lparr> resp_id = responseId state, resp_created_at = createdAt state,
       resp_model = model state, resp_status = In_progress, resp_output = [],
       resp_usage = \<lparr> input_tokens = 0, output_tokens = 0, total_tokens = 0 \<rparr>,
       resp_error = None \<rparr>"

definition createResponseCreatedEvent :: "stream_state \<Rightarrow> responses_stream_event" where
  "createResponseCreatedEvent state =
     (blank_event Ev_created) \<lparr> ev_response := Some (initial_response state) \<rparr>"

definition createResponseInProgressEvent :: "stream_state \<Rightarrow> responses_stream_event" where
  "createResponseInProgressEvent state =
     (blank_event Ev_in_progress) \<lparr> ev_response := Some (initial_response state) \<rparr>"

section \<open>The streaming handler (server.ts, 160-237)\<close>

text \<open>
  What the handler can catch. \<^verbatim>\<open>Error_instance m\<close> is a value for which
  \<^verbatim>\<open>error instanceof Error\<close> holds, with its \<^verbatim>\<open>message\<close> (what \<^verbatim>\<open>fetch\<close>, the body
  reader and \<^verbatim>\<open>throw new Error(...)\<close> raise). \<^verbatim>\<open>Api_error\<close> is the parsed body of a
  non-2xx upstream answer, thrown as a plain object of type \<^verbatim>\<open>OpenRouterError\<close>
  (openrouter-client.ts, 66 and 111). \<^verbatim>\<open>Other_thrown\<close> is any other value.
\<close>

record open_router_error =
  ore_message :: string
  ore_type :: string
  ore_code :: "string option"
  ore_param :: "string option"

datatype thrown = Error_instance string | Api_error open_router_error | Other_thrown

text \<open>
  The upstream generator \<^verbatim>\<open>createStreamingCompletion\<close> yields chunks one by one and
  then either returns (the stream closed) or throws. An exchange is therefore the list
  of chunks delivered and the way the stream ended.
\<close>

datatype stream_end = Stream_closed | Stream_raised thrown

text \<open>The \<^verbatim>\<open>for await\<close> loop, lines 187-193: the events of each chunk are written in
  order, the state is threaded through.\<close>

fun run_chunks ::
  "chat_stream_chunk list \<Rightarrow> stream_state \<Rightarrow> responses_stream_event list \<times> stream_state" where
  "run_chunks [] state = ([], state)"
| "run_chunks (chunk # rest) state =
     (let (events, s1) = translateStreamChunk chunk state;
          (more, s2) = run_chunks rest s1
      in (events @ more, s2))"

text \<open>The chunk forged at lines 200-213.\<close>

definition empty_chunk :: "string \<Rightarrow> int \<Rightarrow> chat_stream_chunk" where
  "empty_chunk mdl now =
     \<lparr> chunk_id = ''empty'', chunk_created = now, chunk_model = mdl,
       chunk_choices = [\<lparr> sc_index = 0, sc_delta = \<lparr> delta_content = Some [] \<rparr>,
                          sc_finish_reason = Some Stop \<rparr>] \<rparr>"

text \<open>The \<^verbatim>\<open>catch\<close> block, lines 220-232.\<close>

definition stream_error_event :: "thrown \<Rightarrow> responses_stream_event" where
  "stream_error_event e =
     (blank_event Ev_error)
       \<lparr> ev_error := Some \<lparr> err_code = ''stream_error'',
                            err_message = (case e of Error_instance m \<Rightarrow> m
                                           | _ \<Rightarrow> ''Unknown streaming error'') \<rparr> \<rparr>"

text \<open>
  \<^verbatim>\<open>handleStreamingRequest\<close>: the result is the list of events written to the
  connection, in order, and the stream state when the handler ends. \<open>mdl\<close> is
  \<^verbatim>\<open>responsesRequest.model\<close>; \<open>rid\<close>, \<open>mid\<close>, \<open>cpid\<close> and \<open>now\<close> are what
  \<^verbatim>\<open>createStreamState\<close> draws, \<open>now'\<close> is the clock when the stream closes.
\<close>

definition handleStreamingRequest ::
  "string \<Rightarrow> string \<Rightarrow> string \<Rightarrow> string \<Rightarrow> int \<Rightarrow> int \<Rightarrow> chat_stream_chunk list \<Rightarrow> stream_end
     \<Rightarrow> responses_stream_event list \<times> stream_state" where
  "handleStreamingRequest mdl rid mid cpid now now' chunks fin =
     (let state = createStreamState mdl rid mid cpid now;
          start = [createResponseCreatedEvent state, createResponseInProgressEvent state];
          (streamed, s1) = run_chunks chunks state
      in case fin of
           Stream_raised e \<Rightarrow> (start @ streamed @ [stream_error_event e], s1)
         | Stream_closed \<Rightarrow>
             if \<not> hasStartedOutput s1
             then (let (events, s2) = translateStreamChunk (empty_chunk mdl now') s1
                   in (start @ streamed @ events, s2))
             else (start @ streamed, s1))"

section \<open>Non-streaming response translation (response-translator.ts, 37-152)\<close>

subsection \<open>Chat Completions side: complete responses\<close>

datatype chat_role = Role_system | Role_user | Role_assistant | Role_tool

datatype chat_part_type = Part_text | Part_image_url

datatype image_detail = Detail_auto | Detail_low | Detail_high

record chat_image_url =
  iu_url :: string
  iu_detail :: "image_detail option"

record chat_content_part =
  ccp_type :: chat_part_type
  ccp_text :: "string option"
  ccp_image_url :: "chat_image_url option"

text \<open>\<^verbatim>\<open>content: string | ChatContentPart[] | null\<close>\<close>

datatype chat_content = Chat_text string | Chat_parts "chat_content_part list" | Chat_null

record chat_tool_call =
  tc_id :: string
  tc_name :: string
  tc_arguments :: string

record chat_message =
  cm_role :: chat_role
  cm_content :: chat_content
  cm_tool_call_id :: "string option"
  cm_tool_calls :: "chat_tool_call list option"

record chat_choice =
  cc_index :: nat
  cc_message :: chat_message
  cc_finish_reason :: "finish_reason option"

record chat_usage =
  cu_prompt_tokens :: int
  cu_completion_tokens :: int
  cu_total_tokens :: int

text \<open>\<^verbatim>\<open>usage\<close> is read with \<^verbatim>\<open>?.\<close>, so it may be missing: an \<open>option\<close>.\<close>

record chat_completions_response =
  ccr_id :: string
  ccr_created :: int
  ccr_model :: string
  ccr_choices :: "chat_choice list"
  ccr_usage :: "chat_usage option"

subsection \<open>\<^verbatim>\<open>normalizeModelName\<close>\<close>

text \<open>\<^verbatim>\<open>model.split("/").pop()\<close>: what follows the last slash.\<close>

definition last_segment :: "string \<Rightarrow> string" where
  "last_segment s = rev (takeWhile (\<lambda>c. c \<noteq> CHR ''/'') (rev s))"

definition normalizeModelName :: "string \<Rightarrow> string" where
  "normalizeModelName mdl =
     (if CHR ''/'' \<in> set mdl
      then (if last_segment mdl \<noteq> [] then last_segment mdl else mdl)
      else mdl)"

subsection \<open>\<^verbatim>\<open>translateResponse\<close>\<close>

text \<open>
  A \<^verbatim>\<open>throw\<close> is the left summand of the result, with the thrown value. The two
  identifiers come from \<^verbatim>\<open>generateId\<close> and are parameters; so is \<^verbatim>\<open>JSON.stringify\<close>
  on a list of content parts (\<open>stringify\<close>). \<^verbatim>\<open>n || 0\<close> on a whole number is that
  number. The response object built has no \<^verbatim>\<open>error\<close> property.
\<close>

definition translateResponse ::
  "(chat_content_part list \<Rightarrow> string) \<Rightarrow> string \<Rightarrow> string \<Rightarrow>
   chat_completions_response \<Rightarrow> string option \<Rightarrow> thrown + responses_api_response" where
  "translateResponse stringify mid rid chatResponse originalModel =
     (case ccr_choices chatResponse of
        [] \<Rightarrow> Inl (Error_instance ''No choices in response from OpenRouter'')
      | choice # _ \<Rightarrow>
          let assistantContent =
                (case cm_content (cc_message choice) of
                   Chat_null \<Rightarrow> Chat_text []
                 | Chat_text s \<Rightarrow> Chat_text s
                 | Chat_parts ps \<Rightarrow> Chat_parts ps);
              outputMessage =
                \<lparr> msg_id = mid,
                  msg_content =
                    [\<lparr> ot_text = (case assistantContent of
                                     Chat_text s \<Rightarrow> s
                                   | Chat_parts ps \<Rightarrow> stringify ps
                                   | Chat_null \<Rightarrow> []) \<rparr>] \<rparr>
          in Inr \<lparr> resp_id = rid,
                   resp_created_at = ccr_created chatResponse,
                   resp_model = (if str_truthy originalModel then the originalModel
                                 else normalizeModelName (ccr_model chatResponse)),
                   resp_status = mapFinishReasonToStatus
                                   (map_option finish_reason_str (cc_finish_reason choice)),
                   resp_output = [outputMessage],
                   resp_usage =
                     \<lparr> input_tokens = (case ccr_usage chatResponse of None \<Rightarrow> 0
                                         | Some u \<Rightarrow> cu_prompt_tokens u),
                       output_tokens = (case ccr_usage chatResponse of None \<Rightarrow> 0
                                         | Some u \<Rightarrow> cu_completion_tokens u),
                       total_tokens = (case ccr_usage chatResponse of None \<Rightarrow> 0
                                         | Some u \<Rightarrow> cu_total_tokens u) \<rparr>,
                   resp_error = None \<rparr>)"

subsection \<open>\<^verbatim>\<open>translateError\<close>\<close>

text \<open>\<open>rid\<close> and \<open>now\<close> are the generated identifier and the clock.
  \<^verbatim>\<open>error.code || error.type || "api_error"\<close> takes the first non-empty string.\<close>

definition translateError :: "string \<Rightarrow> int \<Rightarrow> thrown \<Rightarrow> responses_api_response" where
  "translateError rid now error =
     (let (errorMessage, errorCode) =
            (case error of
               Error_instance m \<Rightarrow> (m, ''internal_error'')
             | Api_error e \<Rightarrow>
                 (ore_message e,
                  if str_truthy (ore_code e) then the (ore_code e)
                  else if ore_type e \<noteq> [] then ore_type e
                  else ''api_error'')
             | Other_thrown \<Rightarrow> (''Unknown error occurred'', ''internal_error''))
      in \<lparr> resp_id = rid, resp_created_at = now, resp_model = ''unknown'',
           resp_status = Failed, resp_output = [],
           resp_usage = \<lparr> input_tokens = 0, output_tokens = 0, total_tokens = 0 \<rparr>,
           resp_error = Some \<lparr> err_code = errorCode, err_message = errorMessage \<rparr> \<rparr>)"

text \<open>The invariant of the specification: the status is failed exactly when the error
  envelope is present.\<close>

definition failed_iff_error :: "responses_api_response \<Rightarrow> bool" where
  "failed_iff_error r \<longleftrightarrow> (resp_status r = Failed) = (resp_error r \<noteq> None)"

text \<open>An upstream response stopped by the content filter.\<close>

definition filtered_response :: chat_completions_response where
  "filtered_response =
     \<lparr> ccr_id = ''gen-1'', ccr_created = 1700000000, ccr_model = ''openai/gpt-4o'',
       ccr_choices =
         [\<lparr> cc_index = 0,
            cc_message = \<lparr> cm_role = Role_assistant, cm_content = Chat_null,
                           cm_tool_call_id = None, cm_tool_calls = None \<rparr>,
            cc_finish_reason = Some Content_filter \<rparr>],
       ccr_usage = Some \<lparr> cu_prompt_tokens = 7, cu_completion_tokens = 0,
                           cu_total_tokens = 7 \<rparr> \<rparr>"

section \<open>Request validation and translation (request-translator.ts)\<close>

subsection \<open>Raw payloads\<close>

text \<open>
  \<^verbatim>\<open>validateRequest(request: unknown)\<close> inspects an arbitrary JavaScript value, in
  practice the parsed JSON body. Numbers are whole numbers here; the function only asks
  for their type. An object is its list of properties, each key once.
\<close>

datatype js_value =
  JUndefined | JNull | JBool bool | JNum int | JStr string
| JArr "js_value list" | JObj "(string \<times> js_value) list"

text \<open>\<^verbatim>\<open>!v\<close> is false exactly for the truthy values.\<close>

fun js_truthy :: "js_value \<Rightarrow> bool" where
  "js_truthy JUndefined = False"
| "js_truthy JNull = False"
| "js_truthy (JBool b) = b"
| "js_truthy (JNum n) = (n \<noteq> 0)"
| "js_truthy (JStr s) = (s \<noteq> [])"
| "js_truthy (JArr _) = True"
| "js_truthy (JObj _) = True"

text \<open>\<^verbatim>\<open>typeof v === "object"\<close> holds for \<^verbatim>\<open>null\<close>, arrays and objects.\<close>

fun typeof_object :: "js_value \<Rightarrow> bool" where
  "typeof_object JNull = True"
| "typeof_object (JArr _) = True"
| "typeof_object (JObj _) = True"
| "typeof_object _ = False"

fun typeof_string :: "js_value \<Rightarrow> bool" where
  "typeof_string (JStr _) = True"
| "typeof_string _ = False"

fun is_array :: "js_value \<Rightarrow> bool" where
  "is_array (JArr _) = True"
| "is_array _ = False"

text \<open>\<^verbatim>\<open>req.model\<close>, \<^verbatim>\<open>req.input\<close>: the property of an object, \<^verbatim>\<open>undefined\<close> where
  there is none (an array has neither property).\<close>

fun get_prop :: "js_value \<Rightarrow> string \<Rightarrow> js_value" where
  "get_prop (JObj props) key = (case map_of props key of None \<Rightarrow> JUndefined | Some v \<Rightarrow> v)"
| "get_prop _ key = JUndefined"

subsection \<open>\<^verbatim>\<open>validateRequest\<close> (lines 246-269)\<close>

text \<open>Each \<^verbatim>\<open>throw new Error(msg)\<close> is \<open>Inl (Error_instance msg)\<close>; on success the
  payload itself is returned (the cast changes nothing). \<open>quoted\<close> puts a name between
  apostrophes, as the messages do.\<close>

definition quoted :: "string \<Rightarrow> string" where
  "quoted s = CHR 0x27 # s @ [CHR 0x27]"

definition validateRequest :: "js_value \<Rightarrow> thrown + js_value" where
  "validateRequest request =
     (if \<not> js_truthy request \<or> \<not> typeof_object request
      then Inl (Error_instance ''Request body must be a JSON object'')
      else if \<not> js_truthy (get_prop request ''model'')
              \<or> \<not> typeof_string (get_prop request ''model'')
      then Inl (Error_instance (quoted ''model'' @ '' field is required and must be a string''))
      else if get_prop request ''input'' = JUndefined \<or> get_prop request ''input'' = JNull
      then Inl (Error_instance (quoted ''input'' @ '' field is required''))
      else if \<not> typeof_string (get_prop request ''input'')
              \<and> \<not> is_array (get_prop request ''input'')
      then Inl (Error_instance (quoted ''input'' @ '' must be a string or an array of messages''))
      else Inr request)"

subsection \<open>Responses API requests\<close>

datatype input_role = In_user | In_assistant | In_system

datatype input_part_type = Input_text | Input_image

record responses_content_part =
  rcp_type :: input_part_type
  rcp_text :: "string option"
  rcp_image_url :: "string option"

datatype responses_content = Content_text string | Content_parts "responses_content_part list"

record responses_input_message =
  rim_role :: input_role
  rim_content :: responses_content

datatype responses_input = Input_string string | Input_messages "responses_input_message list"

datatype tool_type = Tool_function | Tool_web_search_preview | Tool_file_search | Tool_code_interpreter

record function_def =
  fn_name :: string
  fn_description :: "string option"
  fn_parameters :: "js_value option"

record responses_tool =
  rt_type :: tool_type
  rt_function :: "function_def option"

datatype tool_choice = Choice_auto | Choice_none | Choice_required | Choice_function string

record responses_api_request =
  req_model :: string
  req_input :: responses_input
  req_instructions :: "string option"
  req_temperature :: "real option"
  req_max_output_tokens :: "int option"
  req_top_p :: "real option"
  req_tools :: "responses_tool list option"
  req_tool_choice :: "tool_choice option"
  req_store :: "bool option"
  req_previous_response_id :: "string option"
  req_stream :: "bool option"
  req_metadata :: "(string \<times> string) list option"

subsection \<open>Chat Completions requests\<close>

text \<open>The \<^verbatim>\<open>model\<close> of an outbound request is what \<^verbatim>\<open>mapModelName\<close> returns: a
  model name or, for a key that the model table inherits (see below), the inherited
  value of that name.\<close>

datatype mapped_model = Model_name string | Inherited_property string

record chat_tool =
  ct_function :: function_def

text \<open>The fields \<^verbatim>\<open>translateRequest\<close> can set; it never sets \<^verbatim>\<open>frequency_penalty\<close>,
  \<^verbatim>\<open>presence_penalty\<close>, \<^verbatim>\<open>stop\<close>, \<^verbatim>\<open>transforms\<close> or \<^verbatim>\<open>route\<close>. A property assigned
  \<^verbatim>\<open>undefined\<close> is absent from the serialised request, like one never assigned.\<close>

record chat_completions_request =
  out_model :: mapped_model
  out_messages :: "chat_message list"
  out_temperature :: "real option"
  out_max_tokens :: "int option"
  out_top_p :: "real option"
  out_stream :: "bool option"
  out_tools :: "chat_tool list option"
  out_tool_choice :: "tool_choice option"

subsection \<open>\<^verbatim>\<open>mapModelName\<close> (lines 30-83)\<close>

definition MODEL_MAP :: "(string \<times> string) list" where
  "MODEL_MAP =
     [(''gpt-4o'', ''openai/gpt-4o''),
      (''gpt-4o-mini'', ''openai/gpt-4o-mini''),
      (''gpt-4-turbo'', ''openai/gpt-4-turbo''),
      (''gpt-4'', ''openai/gpt-4''),
      (''gpt-3.5-turbo'', ''openai/gpt-3.5-turbo''),
      (''o1'', ''openai/o1''),
      (''o1-mini'', ''openai/o1-mini''),
      (''o1-preview'', ''openai/o1-preview''),
      (''o3-mini'', ''openai/o3-mini''),
      (''claude-3-5-sonnet'', ''anthropic/claude-3.5-sonnet''),
      (''claude-3.5-sonnet'', ''anthropic/claude-3.5-sonnet''),
      (''claude-3-opus'', ''anthropic/claude-3-opus''),
      (''claude-3-sonnet'', ''anthropic/claude-3-sonnet''),
      (''claude-3-haiku'', ''anthropic/claude-3-haiku''),
      (''llama-3.1-70b'', ''meta-llama/llama-3.1-70b-instruct''),
      (''llama-3.1-8b'', ''meta-llama/llama-3.1-8b-instruct''),
      (''llama-3.2-90b'', ''meta-llama/llama-3.2-90b-vision-instruct''),
      (''gemini-pro'', ''google/gemini-pro''),
      (''gemini-1.5-pro'', ''google/gemini-pro-1.5''),
      (''gemini-1.5-flash'', ''google/gemini-flash-1.5''),
      (''mistral-large'', ''mistralai/mistral-large''),
      (''mistral-medium'', ''mistralai/mistral-medium''),
      (''mixtral-8x7b'', ''mistralai/mixtral-8x7b-instruct'')]"

text \<open>
  \<^verbatim>\<open>model.toLowerCase()\<close> is the runtime's lower-casing of a JavaScript string, which
  follows Unicode: it is the parameter \<open>toLowerCase\<close> of \<open>mapModelName\<close> and of
  \<open>translateRequest\<close>. On strings of ASCII characters it is \<open>ascii_toLowerCase\<close>.
\<close>

definition lower_char :: "char \<Rightarrow> char" where
  "lower_char c =
     (if 65 \<le> (of_char c :: nat) \<and> (of_char c :: nat) \<le> 90
      then char_of ((of_char c :: nat) + 32) else c)"

definition ascii_toLowerCase :: "string \<Rightarrow> string" where
  "ascii_toLowerCase s = map lower_char s"

text \<open>
  \<^verbatim>\<open>MODEL_MAP\<close> is an object literal, so \<^verbatim>\<open>MODEL_MAP[key]\<close> also finds the properties
  the object inherits from \<^verbatim>\<open>Object.prototype\<close>. Their values are functions (and the
  prototype itself for \<^verbatim>\<open>__proto__\<close>): truthy, and not strings.
\<close>

definition Object_prototype_keys :: "string list" where
  "Object_prototype_keys =
     [''constructor'', ''__defineGetter__'', ''__defineSetter__'', ''hasOwnProperty'',
      ''__lookupGetter__'', ''__lookupSetter__'', ''isPrototypeOf'',
      ''propertyIsEnumerable'', ''toString'', ''valueOf'', ''__proto__'',
      ''toLocaleString'']"

text \<open>Every value of the table is a non-empty string, hence truthy; so is every
  inherited value. An own key of the table shadows an inherited one.\<close>

definition mapModelName :: "(string \<Rightarrow> string) \<Rightarrow> string \<Rightarrow> mapped_model" where
  "mapModelName toLowerCase mdl =
     (if CHR ''/'' \<in> set mdl then Model_name mdl
      else (case map_of MODEL_MAP (toLowerCase mdl) of
              Some mapped \<Rightarrow> Model_name mapped
            | None \<Rightarrow>
                if toLowerCase mdl \<in> set Object_prototype_keys
                then Inherited_property (toLowerCase mdl)
                else Model_name (''openai/'' @ mdl)))"

subsection \<open>\<^verbatim>\<open>convertContent\<close> and \<^verbatim>\<open>convertInputToMessages\<close> (lines 95-161)\<close>

definition plain_message :: "chat_role \<Rightarrow> chat_content \<Rightarrow> chat_message" where
  "plain_message r c =
     \<lparr> cm_role = r, cm_content = c, cm_tool_call_id = None, cm_tool_calls = None \<rparr>"

text \<open>One turn of the loop at lines 144-158: the part pushed for an input part, if any.\<close>

definition convert_part :: "responses_content_part \<Rightarrow> chat_content_part list" where
  "convert_part part =
     (if rcp_type part = Input_text \<and> str_truthy (rcp_text part)
      then [\<lparr> ccp_type = Part_text, ccp_text = rcp_text part, ccp_image_url = None \<rparr>]
      else if rcp_type part = Input_image \<and> str_truthy (rcp_image_url part)
      then [\<lparr> ccp_type = Part_image_url, ccp_text = None,
               ccp_image_url = Some \<lparr> iu_url = the (rcp_image_url part),
                                        iu_detail = None \<rparr> \<rparr>]
      else [])"

fun convertContent :: "responses_content \<Rightarrow> chat_content" where
  "convertContent (Content_text s) = Chat_text s"
| "convertContent (Content_parts parts) = Chat_parts (concat (map convert_part parts))"

fun role_of :: "input_role \<Rightarrow> chat_role" where
  "role_of In_user = Role_user"
| "role_of In_assistant = Role_assistant"
| "role_of In_system = Role_system"

text \<open>\<^verbatim>\<open>if (instructions)\<close> is the truthiness test of an optional string.\<close>

definition convertInputToMessages :: "responses_input \<Rightarrow> string option \<Rightarrow> chat_message list" where
  "convertInputToMessages inp instructions =
     (let messages =
            (if str_truthy instructions
             then [plain_message Role_system (Chat_text (the instructions))]
             else [])
      in case inp of
           Input_string s \<Rightarrow> messages @ [plain_message Role_user (Chat_text s)]
         | Input_messages msgs \<Rightarrow>
             messages @ map (\<lambda>msg. plain_message (role_of (rim_role msg))
                                      (convertContent (rim_content msg))) msgs)"

subsection \<open>\<^verbatim>\<open>convertTools\<close> (lines 169-194)\<close>

text \<open>The filter keeps the tools with \<^verbatim>\<open>t.type === "function" && t.function\<close>, so
  \<^verbatim>\<open>t.function!\<close> in the map is defined.\<close>

definition convertTools :: "responses_tool list \<Rightarrow> chat_tool list option" where
  "convertTools tools =
     (let functionTools =
            filter (\<lambda>t. rt_type t = Tool_function \<and> rt_function t \<noteq> None) tools
      in if length functionTools = 0 then None
         else Some (map (\<lambda>t. \<lparr> ct_function =
                                   \<lparr> fn_name = fn_name (the (rt_function t)),
                                     fn_description = fn_description (the (rt_function t)),
                                     fn_parameters = fn_parameters (the (rt_function t)) \<rparr> \<rparr>)
                        functionTools))"

subsection \<open>\<^verbatim>\<open>translateRequest\<close> (lines 199-241)\<close>

definition translateRequest ::
  "(string \<Rightarrow> string) \<Rightarrow> responses_api_request \<Rightarrow> chat_completions_request" where
  "translateRequest toLowerCase responsesRequest =
     \<lparr> out_model = mapModelName toLowerCase (req_model responsesRequest),
       out_messages = convertInputToMessages (req_input responsesRequest)
                        (req_instructions responsesRequest),
       out_temperature = req_temperature responsesRequest,
       out_max_tokens = req_max_output_tokens responsesRequest,
       out_top_p = req_top_p responsesRequest,
       out_stream = req_stream responsesRequest,
       out_tools = (case req_tools responsesRequest of
                      None \<Rightarrow> None
                    | Some tools \<Rightarrow> if length tools > 0 then convertTools tools else None),
       out_tool_choice = req_tool_choice responsesRequest \<rparr>"

section \<open>Vocabulary for stating the properties\<close>

subsection \<open>Requests\<close>

text \<open>The tools a request declares: none when the field is absent.\<close>

definition declared_tools :: "responses_api_request \<Rightarrow> responses_tool list" where
  "declared_tools req = (case req_tools req of None \<Rightarrow> [] | Some tools \<Rightarrow> tools)"

text \<open>The function-capable subset of a tool list, as function definitions in the
  original order: the tools of type function that carry a function definition.\<close>

fun function_capable :: "responses_tool list \<Rightarrow> function_def list" where
  "function_capable [] = []"
| "function_capable (t # ts) =
     (case rt_function t of
        Some f \<Rightarrow> if rt_type t = Tool_function then f # function_capable ts
                  else function_capable ts
      | None \<Rightarrow> function_capable ts)"

text \<open>A request with string input and nothing else set.\<close>

definition simple_request :: "string \<Rightarrow> string \<Rightarrow> responses_api_request" where
  "simple_request mdl inp =
     \<lparr> req_model = mdl, req_input = Input_string inp, req_instructions = None,
       req_temperature = None, req_max_output_tokens = None, req_top_p = None,
       req_tools = None, req_tool_choice = None, req_store = None,
       req_previous_response_id = None, req_stream = None, req_metadata = None \<rparr>"

subsection \<open>Streaming exchanges\<close>

text \<open>The finish reason a chunk carries: that of its first choice, if it has one.\<close>

definition chunk_finish :: "chat_stream_chunk \<Rightarrow> finish_reason option" where
  "chunk_finish chunk =
     (case chunk_choices chunk of [] \<Rightarrow> None | choice # _ \<Rightarrow> sc_finish_reason choice)"

text \<open>The non-empty content delta a chunk carries, if any.\<close>

definition chunk_content :: "chat_stream_chunk \<Rightarrow> string option" where
  "chunk_content chunk =
     (case chunk_choices chunk of
        [] \<Rightarrow> None
      | choice # _ \<Rightarrow>
          (case delta_content (sc_delta choice) of
             None \<Rightarrow> None
           | Some c \<Rightarrow> if c = [] then None else Some c))"

text \<open>The non-empty content deltas of a chunk sequence, in order.\<close>

fun chunk_deltas :: "chat_stream_chunk list \<Rightarrow> string list" where
  "chunk_deltas [] = []"
| "chunk_deltas (chunk # rest) =
     (case chunk_content chunk of None \<Rightarrow> chunk_deltas rest
      | Some c \<Rightarrow> c # chunk_deltas rest)"

text \<open>How often an event tag occurs in an event sequence.\<close>

definition tag_count :: "event_type \<Rightarrow> responses_stream_event list \<Rightarrow> nat" where
  "tag_count t events = length (filter (\<lambda>e. ev_type e = t) events)"

text \<open>The pair \<^verbatim>\<open>output_item.added\<close>, \<^verbatim>\<open>content_part.added\<close> that both branches of
  \<^verbatim>\<open>translateStreamChunk\<close> emit when the output has not started yet.\<close>

definition open_events :: "stream_state \<Rightarrow> responses_stream_event list" where
  "open_events state =
     (if hasStartedOutput state then []
      else [output_item_added_event state, content_part_added_event])"

text \<open>The state after a non-empty content delta has been processed (lines 174-200).\<close>

definition after_content :: "stream_state \<Rightarrow> string \<Rightarrow> stream_state" where
  "after_content state text =
     (if hasStartedOutput state
      then state \<lparr> accumulatedText := accumulatedText state @ text \<rparr>
      else state \<lparr> hasStartedOutput := True, hasAddedContentPart := True,
                   accumulatedText := accumulatedText state @ text \<rparr>)"

text \<open>The five events pushed at lines 236-304.\<close>

definition terminal_events :: "finish_reason \<Rightarrow> stream_state \<Rightarrow> responses_stream_event list" where
  "terminal_events fr state =
     [output_text_done_event state, content_part_done_event state,
      output_item_done_event state, completed_event fr state, done_event fr state]"

text \<open>The state after a chunk sequence with the content deltas \<open>ds\<close> whose last chunk
  carries a finish reason.\<close>

definition finished_state :: "stream_state \<Rightarrow> string list \<Rightarrow> stream_state" where
  "finished_state state ds =
     (if ds = [] then state \<lparr> hasStartedOutput := True \<rparr>
      else after_content state (concat ds))"

text \<open>The two chunks of the concrete example of the specification:
  \<^verbatim>\<open>{delta:{content:"Hi"}, finish_reason:null}\<close> and \<^verbatim>\<open>{delta:{}, finish_reason:"stop"}\<close>.\<close>

definition hi_chunk :: chat_stream_chunk where
  "hi_chunk =
     \<lparr> chunk_id = ''c1'', chunk_created = 0, chunk_model = ''openai/gpt-4o'',
       chunk_choices = [\<lparr> sc_index = 0, sc_delta = \<lparr> delta_content = Some ''Hi'' \<rparr>,
                          sc_finish_reason = None \<rparr>] \<rparr>"

definition stop_chunk :: chat_stream_chunk where
  "stop_chunk =
     \<lparr> chunk_id = ''c2'', chunk_created = 0, chunk_model = ''openai/gpt-4o'',
       chunk_choices = [\<lparr> sc_index = 0, sc_delta = \<lparr> delta_content = None \<rparr>,
                          sc_finish_reason = Some Stop \<rparr>] \<rparr>"

text \<open>An event carries the identifiers \<open>rid\<close> (response) and \<open>mid\<close> (message)
  wherever it carries a response or an output item.\<close>

definition event_ids_ok :: "string \<Rightarrow> string \<Rightarrow> responses_stream_event \<Rightarrow> bool" where
  "event_ids_ok rid mid ev \<longleftrightarrow>
     (case ev_response ev of None \<Rightarrow> True
      | Some r \<Rightarrow> resp_id r = rid \<and> list_all (\<lambda>m. msg_id m = mid) (resp_output r))
     \<and> (case ev_item ev of None \<Rightarrow> True | Some it \<Rightarrow> item_id it = mid)"

text \<open>A completed or done event reports the usage counters 0, 0, 0.\<close>

definition terminal_usage_zero :: "responses_stream_event \<Rightarrow> bool" where
  "terminal_usage_zero ev \<longleftrightarrow>
     (ev_type ev = Ev_completed \<or> ev_type ev = Ev_done \<longrightarrow>
        map_option resp_usage (ev_response ev)
          = Some \<lparr> input_tokens = 0, output_tokens = 0, total_tokens = 0 \<rparr>)"

text \<open>The fields of the state that an exchange never changes.\<close>

definition same_frame :: "stream_state \<Rightarrow> stream_state \<Rightarrow> bool" where
  "same_frame s t \<longleftrightarrow>
     responseId t = responseId s \<and> messageId t = messageId s
     \<and> contentPartId t = contentPartId s \<and> model t = model s
     \<and> createdAt t = createdAt s \<and> inputTokens t = inputTokens s
     \<and> outputTokens t = outputTokens s"

text \<open>Both properties of an event together.\<close>

definition good_event :: "string \<Rightarrow> string \<Rightarrow> responses_stream_event \<Rightarrow> bool" where
  "good_event rid mid ev \<longleftrightarrow> event_ids_ok rid mid ev \<and> terminal_usage_zero ev"

text \<open>The invariant of the stream state of one exchange: the identifiers drawn at
  its start, and token counters that are still zero.\<close>

definition exchange_state :: "string \<Rightarrow> string \<Rightarrow> stream_state \<Rightarrow> bool" where
  "exchange_state rid mid s \<longleftrightarrow>
     responseId s = rid \<and> messageId s = mid \<and> inputTokens s = 0 \<and> outputTokens s = 0"

text \<open>The payloads that pass: an object whose \<open>model\<close> is a non-empty string and whose
  \<open>input\<close> is a string or an array.\<close>

definition acceptable :: "js_value \<Rightarrow> bool" where
  "acceptable request \<longleftrightarrow>
     (case request of
        JObj props \<Rightarrow>
          (case get_prop request ''model'' of JStr m \<Rightarrow> m \<noteq> [] | _ \<Rightarrow> False)
          \<and> (case get_prop request ''input'' of JStr _ \<Rightarrow> True | JArr _ \<Rightarrow> True
              | _ \<Rightarrow> False)
      | _ \<Rightarrow> False)"

text \<open>The tool list of the specification's example: a built-in web search and a
  function named \<open>lookup\<close>.\<close>

definition example_tools :: "responses_tool list" where
  "example_tools =
     [\<lparr> rt_type = Tool_web_search_preview, rt_function = None \<rparr>,
      \<lparr> rt_type = Tool_function,
        rt_function = Some \<lparr> fn_name = ''lookup'', fn_description = None,
                              fn_parameters = None \<rparr> \<rparr>]"

section \<open>Properties\<close>

text \<open>
  Claim C10. For every chunk whose \<open>choices\<close> sequence is empty, \<open>translateStreamChunk\<close>
  returns the empty event sequence and leaves every field of the stream state unchanged.
\<close>

theorem translateStreamChunk_no_choices:
  "translateStreamChunk (chunk \<lparr> chunk_choices := [] \<rparr>) state = ([], state)"
  by (simp add: translateStreamChunk_def)

subsection \<open>One chunk\<close>

text \<open>What \<^verbatim>\<open>translateStreamChunk\<close> does is decided by the content delta and the finish
  reason of the first choice: four cases.\<close>

lemma content_step_none:
  "delta_content (sc_delta choice) = None \<or> delta_content (sc_delta choice) = Some [] \<Longrightarrow>
   content_step choice state = ([], state)"
  by (auto simp: content_step_def)

lemma content_step_some:
  "delta_content (sc_delta choice) = Some d \<Longrightarrow> d \<noteq> [] \<Longrightarrow>
   content_step choice state =
     (open_events state @ [output_text_delta_event d], after_content state d)"
  by (simp add: content_step_def open_events_def after_content_def)

lemma finish_step_none:
  "sc_finish_reason choice = None \<Longrightarrow> finish_step choice state = ([], state)"
  by (simp add: finish_step_def)

lemma finish_step_some:
  "sc_finish_reason choice = Some fr \<Longrightarrow>
   finish_step choice state =
     (open_events state @ terminal_events fr (state \<lparr> hasStartedOutput := True \<rparr>),
      state \<lparr> hasStartedOutput := True \<rparr>)"
  by (cases state) (simp add: finish_step_def open_events_def terminal_events_def)

lemma translate_inert:
  "chunk_content chunk = None \<Longrightarrow> chunk_finish chunk = None \<Longrightarrow>
   translateStreamChunk chunk state = ([], state)"
  by (auto simp: translateStreamChunk_def chunk_content_def chunk_finish_def
        content_step_none finish_step_none split: list.splits option.splits if_splits)

lemma translate_delta:
  "chunk_content chunk = Some d \<Longrightarrow> chunk_finish chunk = None \<Longrightarrow>
   translateStreamChunk chunk state =
     (open_events state @ [output_text_delta_event d], after_content state d)"
  by (auto simp: translateStreamChunk_def chunk_content_def chunk_finish_def
        content_step_some finish_step_none split: list.splits option.splits if_splits)

lemma translate_finish_only:
  "chunk_content chunk = None \<Longrightarrow> chunk_finish chunk = Some fr \<Longrightarrow>
   translateStreamChunk chunk state =
     (open_events state @ terminal_events fr (state \<lparr> hasStartedOutput := True \<rparr>),
      state \<lparr> hasStartedOutput := True \<rparr>)"
  by (auto simp: translateStreamChunk_def chunk_content_def chunk_finish_def
        content_step_none finish_step_some split: list.splits option.splits if_splits)

lemma after_content_started [simp]: "hasStartedOutput (after_content state d)"
  by (simp add: after_content_def)

lemma open_events_started [simp]: "hasStartedOutput state \<Longrightarrow> open_events state = []"
  by (simp add: open_events_def)

lemma translate_delta_finish:
  "chunk_content chunk = Some d \<Longrightarrow> chunk_finish chunk = Some fr \<Longrightarrow>
   translateStreamChunk chunk state =
     (open_events state @ [output_text_delta_event d]
        @ terminal_events fr (after_content state d),
      after_content state d)"
  by (cases state)
     (auto simp: translateStreamChunk_def chunk_content_def chunk_finish_def
        content_step_some finish_step_some after_content_def split: list.splits option.splits if_splits)

subsection \<open>A sequence of chunks\<close>

lemma after_content_twice:
  "after_content (after_content state d) t = after_content state (d @ t)"
  by (cases state) (simp add: after_content_def)

lemma run_chunks_append:
  "run_chunks (xs @ ys) state =
     (let (e1, s1) = run_chunks xs state; (e2, s2) = run_chunks ys s1 in (e1 @ e2, s2))"
  by (induction xs arbitrary: state) (simp_all split: prod.splits)

lemma run_chunks_no_finish:
  "\<forall>c \<in> set cs. chunk_finish c = None \<Longrightarrow>
   run_chunks cs state =
     (if chunk_deltas cs = [] then ([], state)
      else (open_events state @ map output_text_delta_event (chunk_deltas cs),
            after_content state (concat (chunk_deltas cs))))"
proof (induction cs arbitrary: state)
  case Nil
  show ?case by simp
next
  case (Cons c cs)
  have fin: "chunk_finish c = None" and rest: "\<forall>c \<in> set cs. chunk_finish c = None"
    using Cons.prems by simp_all
  show ?case
  proof (cases "chunk_content c")
    case None
    then show ?thesis
      using Cons.IH [OF rest, of state] fin by (simp add: translate_inert)
  next
    case (Some d)
    then show ?thesis
      using Cons.IH [OF rest, of "after_content state d"] fin
      by (simp add: translate_delta after_content_twice)
  qed
qed

lemma chunk_deltas_append:
  "chunk_deltas (xs @ ys) = chunk_deltas xs @ chunk_deltas ys"
  by (induction xs) (simp_all split: option.splits)

lemma started_update_id:
  "hasStartedOutput state \<Longrightarrow> state \<lparr> hasStartedOutput := True \<rparr> = state"
  by (cases state) simp

lemma finished_state_started: "hasStartedOutput (finished_state state ds)"
  by (simp add: finished_state_def)

lemma run_chunks_finishing:
  assumes pre: "\<forall>c \<in> set pre. chunk_finish c = None"
    and lst: "chunk_finish lst = Some fr"
  shows "run_chunks (pre @ [lst]) state =
     (open_events state
        @ map output_text_delta_event (chunk_deltas (pre @ [lst]))
        @ terminal_events fr (finished_state state (chunk_deltas (pre @ [lst]))),
      finished_state state (chunk_deltas (pre @ [lst])))"
proof (cases "chunk_content lst")
  case None
  then show ?thesis
    using lst
    by (simp add: run_chunks_append run_chunks_no_finish [OF pre] chunk_deltas_append
          translate_finish_only finished_state_def started_update_id)
next
  case (Some d)
  then show ?thesis
    using lst
    by (simp add: run_chunks_append run_chunks_no_finish [OF pre] chunk_deltas_append
          translate_delta_finish finished_state_def after_content_twice)
qed

lemma createStreamState_fresh:
  "\<not> hasStartedOutput (createStreamState mdl rid mid cpid now)"
  "accumulatedText (createStreamState mdl rid mid cpid now) = []"
  by (simp_all add: createStreamState_def)

lemma handle_finishing:
  assumes pre: "\<forall>c \<in> set pre. chunk_finish c = None"
    and lst: "chunk_finish lst = Some fr"
  shows "handleStreamingRequest mdl rid mid cpid now now' (pre @ [lst]) Stream_closed =
     (let s0 = createStreamState mdl rid mid cpid now;
          ds = chunk_deltas (pre @ [lst])
      in ([createResponseCreatedEvent s0, createResponseInProgressEvent s0,
           output_item_added_event s0, content_part_added_event]
            @ map output_text_delta_event ds
            @ terminal_events fr (finished_state s0 ds),
          finished_state s0 ds))"
  by (simp add: handleStreamingRequest_def run_chunks_finishing [OF pre lst]
        finished_state_started open_events_def createStreamState_fresh Let_def)

lemma finished_state_text:
  "accumulatedText (finished_state state ds) = accumulatedText state @ concat ds"
  by (cases state) (simp add: finished_state_def after_content_def)

lemma ev_type_simps [simp]:
  "ev_type (createResponseCreatedEvent s) = Ev_created"
  "ev_type (createResponseInProgressEvent s) = Ev_in_progress"
  "ev_type (output_item_added_event s) = Ev_output_item_added"
  "ev_type content_part_added_event = Ev_content_part_added"
  "ev_type (output_text_delta_event d) = Ev_output_text_delta"
  "ev_type (output_text_done_event s) = Ev_output_text_done"
  "ev_type (content_part_done_event s) = Ev_content_part_done"
  "ev_type (output_item_done_event s) = Ev_output_item_done"
  "ev_type (completed_event fr s) = Ev_completed"
  "ev_type (done_event fr s) = Ev_done"
  "ev_type (stream_error_event e) = Ev_error"
  by (simp_all add: createResponseCreatedEvent_def createResponseInProgressEvent_def
        output_item_added_event_def content_part_added_event_def output_text_delta_event_def
        output_text_done_event_def content_part_done_event_def output_item_done_event_def
        completed_event_def done_event_def stream_error_event_def blank_event_def)

lemma ev_delta_delta [simp]: "ev_delta (output_text_delta_event d) = Some d"
  by (simp add: output_text_delta_event_def blank_event_def)

lemma map_type_deltas:
  "map ev_type (map output_text_delta_event ds) = replicate (length ds) Ev_output_text_delta"
  by (induction ds) simp_all

lemma filter_deltas:
  "filter (\<lambda>e. ev_type e = Ev_output_text_delta) (map output_text_delta_event ds)
     = map output_text_delta_event ds"
  by (induction ds) simp_all

subsection \<open>The streamed exchange\<close>

text \<open>
  Claim C1. For every finite upstream chunk sequence in which only the final chunk
  carries a non-null finish reason, the streamed exchange (the two stream-start events,
  then \<open>translateStreamChunk\<close> applied to each chunk in order against a fresh stream
  state) emits exactly the tags created, in_progress, output_item.added,
  content_part.added, one output_text.delta per non-empty content delta (carrying the
  deltas in order), output_text.done, content_part.done, output_item.done, completed,
  done. The accumulated text is the concatenation of the deltas; when the very first
  chunk already carries the finish reason and no content, there is no
  output_text.delta and the accumulated text is empty.
\<close>

theorem streamed_exchange_event_order:
  assumes "\<forall>c \<in> set pre. chunk_finish c = None"
    and "chunk_finish lst = Some fr"
  shows
    "map ev_type (fst (handleStreamingRequest mdl rid mid cpid now now' (pre @ [lst]) Stream_closed))
       = [Ev_created, Ev_in_progress, Ev_output_item_added, Ev_content_part_added]
         @ replicate (length (chunk_deltas (pre @ [lst]))) Ev_output_text_delta
         @ [Ev_output_text_done, Ev_content_part_done, Ev_output_item_done, Ev_completed, Ev_done]
     \<and> map ev_delta (filter (\<lambda>e. ev_type e = Ev_output_text_delta)
          (fst (handleStreamingRequest mdl rid mid cpid now now' (pre @ [lst]) Stream_closed)))
       = map Some (chunk_deltas (pre @ [lst]))
     \<and> accumulatedText (snd (handleStreamingRequest mdl rid mid cpid now now' (pre @ [lst]) Stream_closed))
       = concat (chunk_deltas (pre @ [lst]))
     \<and> (pre = [] \<and> chunk_content lst = None \<longrightarrow>
          tag_count Ev_output_text_delta
            (fst (handleStreamingRequest mdl rid mid cpid now now' (pre @ [lst]) Stream_closed)) = 0
          \<and> accumulatedText
            (snd (handleStreamingRequest mdl rid mid cpid now now' (pre @ [lst]) Stream_closed)) = [])"
  unfolding handle_finishing [OF assms] Let_def
  by (simp add: terminal_events_def map_type_deltas filter_deltas finished_state_text
        createStreamState_fresh tag_count_def comp_def map_replicate_const)

lemma example_chunks [simp]:
  "chunk_finish hi_chunk = None" "chunk_content hi_chunk = Some ''Hi''"
  "chunk_finish stop_chunk = Some Stop" "chunk_content stop_chunk = None"
  by (simp_all add: hi_chunk_def stop_chunk_def chunk_finish_def chunk_content_def)

theorem streamed_exchange_event_order_witness:
  "chunk_finish hi_chunk = None \<and> chunk_finish stop_chunk = Some Stop
   \<and> map ev_type (fst (handleStreamingRequest ''gpt-4o'' ''resp_1'' ''msg_1'' ''cp_1'' 0 0
                         ([hi_chunk] @ [stop_chunk]) Stream_closed))
       = [Ev_created, Ev_in_progress, Ev_output_item_added, Ev_content_part_added,
          Ev_output_text_delta,
          Ev_output_text_done, Ev_content_part_done, Ev_output_item_done, Ev_completed, Ev_done]
   \<and> accumulatedText (snd (handleStreamingRequest ''gpt-4o'' ''resp_1'' ''msg_1'' ''cp_1'' 0 0
                         ([hi_chunk] @ [stop_chunk]) Stream_closed)) = ''Hi''
   \<and> map ev_type (fst (handleStreamingRequest ''gpt-4o'' ''resp_1'' ''msg_1'' ''cp_1'' 0 0
                         ([] @ [stop_chunk]) Stream_closed))
       = [Ev_created, Ev_in_progress, Ev_output_item_added, Ev_content_part_added,
          Ev_output_text_done, Ev_content_part_done, Ev_output_item_done, Ev_completed, Ev_done]
   \<and> tag_count Ev_output_text_delta
        (fst (handleStreamingRequest ''gpt-4o'' ''resp_1'' ''msg_1'' ''cp_1'' 0 0
                ([] @ [stop_chunk]) Stream_closed)) = 0
   \<and> accumulatedText (snd (handleStreamingRequest ''gpt-4o'' ''resp_1'' ''msg_1'' ''cp_1'' 0 0
                         ([] @ [stop_chunk]) Stream_closed)) = []"
  using streamed_exchange_event_order
          [of "[hi_chunk]" stop_chunk Stop "''gpt-4o''" "''resp_1''" "''msg_1''" "''cp_1''" 0 0]
        streamed_exchange_event_order
          [of "[]" stop_chunk Stop "''gpt-4o''" "''resp_1''" "''msg_1''" "''cp_1''" 0 0]
  by simp

text \<open>
  Claim C3 says that an exchange whose chunks never carry a finish reason still ends
  with the terminal tail output_text.done, content_part.done, output_item.done,
  completed, done, also after content deltas were delivered. The handler forges the
  closing chunk only under \<^verbatim>\<open>if (!state.hasStartedOutput)\<close> (server.ts, 197): after one
  content delta and the closing of the stream, the exchange below ends with the
  output_text.delta event, without any terminal event.
\<close>

theorem silent_end_after_content_has_no_tail:
  "chunk_finish hi_chunk = None
   \<and> map ev_type (fst (handleStreamingRequest ''gpt-4o'' ''resp_1'' ''msg_1'' ''cp_1'' 0 0
                         [hi_chunk] Stream_closed))
       = [Ev_created, Ev_in_progress, Ev_output_item_added, Ev_content_part_added,
          Ev_output_text_delta]"
  by (simp add: handleStreamingRequest_def translate_delta open_events_def
        createStreamState_fresh Let_def)

text \<open>Where no content delta was delivered, the closing chunk is forged and the
  terminal tail is emitted.\<close>

lemma silent_end_without_content:
  assumes "\<forall>c \<in> set chunks. chunk_finish c = None" and "chunk_deltas chunks = []"
  shows "map ev_type (fst (handleStreamingRequest mdl rid mid cpid now now' chunks Stream_closed))
       = [Ev_created, Ev_in_progress, Ev_output_item_added, Ev_content_part_added,
          Ev_output_text_done, Ev_content_part_done, Ev_output_item_done, Ev_completed, Ev_done]"
proof -
  have e: "chunk_content (empty_chunk mdl now') = None"
    "chunk_finish (empty_chunk mdl now') = Some Stop"
    by (simp_all add: empty_chunk_def chunk_content_def chunk_finish_def)
  show ?thesis
    by (simp add: handleStreamingRequest_def run_chunks_no_finish [OF assms(1)] assms(2)
          createStreamState_fresh translate_finish_only [OF e] open_events_def
          terminal_events_def Let_def)
qed

text \<open>
  Claim C2. Once a chunk carrying a non-null finish reason has been processed against
  a stream state, the state is terminated: a further chunk produces no events and does
  not change the state, so completed and done are emitted at most once per exchange.
  The documentation of \<^verbatim>\<open>translateStreamChunk\<close> asks for the same order
  (\<^verbatim>\<open>response.done (CRITICAL - must be last!)\<close>), but the function keeps no such state.
  After the chunk with finish reason stop, a chunk with content still yields an
  output_text.delta after done and appends to the accumulated text, and a second chunk
  with a finish reason emits the terminal events, done included, a second time.
\<close>

theorem terminated_context_not_enforced:
  "chunk_finish stop_chunk = Some Stop
   \<and> map ev_type (fst (translateStreamChunk hi_chunk
        (snd (translateStreamChunk stop_chunk
               (createStreamState ''gpt-4o'' ''resp_1'' ''msg_1'' ''cp_1'' 0)))))
       = [Ev_output_text_delta]
   \<and> accumulatedText (snd (translateStreamChunk stop_chunk
               (createStreamState ''gpt-4o'' ''resp_1'' ''msg_1'' ''cp_1'' 0))) = []
   \<and> accumulatedText (snd (translateStreamChunk hi_chunk
        (snd (translateStreamChunk stop_chunk
               (createStreamState ''gpt-4o'' ''resp_1'' ''msg_1'' ''cp_1'' 0))))) = ''Hi''
   \<and> map ev_type (fst (handleStreamingRequest ''gpt-4o'' ''resp_1'' ''msg_1'' ''cp_1'' 0 0
                         [stop_chunk, hi_chunk] Stream_closed))
       = [Ev_created, Ev_in_progress, Ev_output_item_added, Ev_content_part_added,
          Ev_output_text_done, Ev_content_part_done, Ev_output_item_done, Ev_completed, Ev_done,
          Ev_output_text_delta]
   \<and> map ev_type (fst (handleStreamingRequest ''gpt-4o'' ''resp_1'' ''msg_1'' ''cp_1'' 0 0
                         [stop_chunk, stop_chunk] Stream_closed))
       = [Ev_created, Ev_in_progress, Ev_output_item_added, Ev_content_part_added,
          Ev_output_text_done, Ev_content_part_done, Ev_output_item_done, Ev_completed, Ev_done,
          Ev_output_text_done, Ev_content_part_done, Ev_output_item_done, Ev_completed, Ev_done]
   \<and> tag_count Ev_completed (fst (handleStreamingRequest ''gpt-4o'' ''resp_1'' ''msg_1'' ''cp_1'' 0 0
                               [stop_chunk, stop_chunk] Stream_closed)) = 2
   \<and> tag_count Ev_done (fst (handleStreamingRequest ''gpt-4o'' ''resp_1'' ''msg_1'' ''cp_1'' 0 0
                               [stop_chunk, stop_chunk] Stream_closed)) = 2"
  by (simp add: translate_finish_only translate_delta handleStreamingRequest_def
        open_events_def after_content_def terminal_events_def tag_count_def
        createStreamState_def Let_def)

subsection \<open>Counting event tags\<close>

lemma filter_deltas_other:
  "t \<noteq> Ev_output_text_delta \<Longrightarrow>
   filter (\<lambda>e. ev_type e = t) (map output_text_delta_event ds) = []"
  by (induction ds) simp_all

lemma tag_count_append:
  "tag_count t (xs @ ys) = tag_count t xs + tag_count t ys"
  by (simp add: tag_count_def)

lemma tag_count_deltas:
  "t \<noteq> Ev_output_text_delta \<Longrightarrow> tag_count t (map output_text_delta_event ds) = 0"
  by (simp add: tag_count_def filter_deltas_other)

subsection \<open>An error during the exchange\<close>

lemma ev_error_simps [simp]:
  "ev_error (stream_error_event e) =
     Some \<lparr> err_code = ''stream_error'',
            err_message = (case e of Error_instance m \<Rightarrow> m | _ \<Rightarrow> ''Unknown streaming error'') \<rparr>"
  by (simp add: stream_error_event_def blank_event_def)

lemma handle_raised:
  assumes "\<forall>c \<in> set chunks. chunk_finish c = None"
  shows "fst (handleStreamingRequest mdl rid mid cpid now now' chunks (Stream_raised e)) =
     (let s0 = createStreamState mdl rid mid cpid now
      in [createResponseCreatedEvent s0, createResponseInProgressEvent s0]
         @ (if chunk_deltas chunks = [] then []
            else [output_item_added_event s0, content_part_added_event]
                 @ map output_text_delta_event (chunk_deltas chunks))
         @ [stream_error_event e])"
  by (simp add: handleStreamingRequest_def run_chunks_no_finish [OF assms] Let_def
        open_events_def createStreamState_fresh)

text \<open>
  Claim C4. If an error is raised at any point of a streaming exchange before a chunk
  with a finish reason was processed, the handler writes, after the events already
  emitted (the two stream-start events and the events of the chunks delivered so far),
  exactly one error event, with the code \<open>stream_error\<close> and the message of the error
  (the fixed text \<open>Unknown streaming error\<close> for a thrown value that is not an
  \<^verbatim>\<open>Error\<close>); it writes no done event and none of output_text.done, content_part.done,
  output_item.done, completed.
\<close>

theorem stream_error_exchange:
  assumes "\<forall>c \<in> set chunks. chunk_finish c = None"
  shows
    "fst (handleStreamingRequest mdl rid mid cpid now now' chunks (Stream_raised e))
       = [createResponseCreatedEvent (createStreamState mdl rid mid cpid now),
          createResponseInProgressEvent (createStreamState mdl rid mid cpid now)]
         @ fst (run_chunks chunks (createStreamState mdl rid mid cpid now))
         @ [stream_error_event e]
     \<and> map ev_error (filter (\<lambda>ev. ev_type ev = Ev_error)
          (fst (handleStreamingRequest mdl rid mid cpid now now' chunks (Stream_raised e))))
       = [Some \<lparr> err_code = ''stream_error'',
                 err_message = (case e of Error_instance m \<Rightarrow> m
                                | _ \<Rightarrow> ''Unknown streaming error'') \<rparr>]
     \<and> tag_count Ev_error
          (fst (handleStreamingRequest mdl rid mid cpid now now' chunks (Stream_raised e))) = 1
     \<and> tag_count Ev_done
          (fst (handleStreamingRequest mdl rid mid cpid now now' chunks (Stream_raised e))) = 0
     \<and> tag_count Ev_completed
          (fst (handleStreamingRequest mdl rid mid cpid now now' chunks (Stream_raised e))) = 0
     \<and> tag_count Ev_output_item_done
          (fst (handleStreamingRequest mdl rid mid cpid now now' chunks (Stream_raised e))) = 0
     \<and> tag_count Ev_content_part_done
          (fst (handleStreamingRequest mdl rid mid cpid now now' chunks (Stream_raised e))) = 0
     \<and> tag_count Ev_output_text_done
          (fst (handleStreamingRequest mdl rid mid cpid now now' chunks (Stream_raised e))) = 0"
proof -
  have shape: "fst (handleStreamingRequest mdl rid mid cpid now now' chunks (Stream_raised e))
       = [createResponseCreatedEvent (createStreamState mdl rid mid cpid now),
          createResponseInProgressEvent (createStreamState mdl rid mid cpid now)]
         @ fst (run_chunks chunks (createStreamState mdl rid mid cpid now))
         @ [stream_error_event e]"
    by (simp add: handleStreamingRequest_def Let_def split: prod.splits)
  have cnt: "tag_count t
          (fst (handleStreamingRequest mdl rid mid cpid now now' chunks (Stream_raised e)))
        = (if t = Ev_error then 1 else 0)"
    if "t \<in> {Ev_error, Ev_done, Ev_completed, Ev_output_item_done, Ev_content_part_done,
              Ev_output_text_done}" for t
    unfolding handle_raised [OF assms] Let_def using that
    by (auto simp: tag_count_append tag_count_deltas) (simp_all add: tag_count_def)
  have err: "map ev_error (filter (\<lambda>ev. ev_type ev = Ev_error)
          (fst (handleStreamingRequest mdl rid mid cpid now now' chunks (Stream_raised e))))
       = [Some \<lparr> err_code = ''stream_error'',
                 err_message = (case e of Error_instance m \<Rightarrow> m
                                | _ \<Rightarrow> ''Unknown streaming error'') \<rparr>]"
    unfolding handle_raised [OF assms] Let_def
    by (simp add: filter_deltas_other)
  show ?thesis
    using shape err cnt [of Ev_error] cnt [of Ev_done] cnt [of Ev_completed]
      cnt [of Ev_output_item_done] cnt [of Ev_content_part_done] cnt [of Ev_output_text_done]
    by simp
qed

theorem stream_error_exchange_witness:
  "chunk_finish hi_chunk = None
   \<and> map ev_type (fst (handleStreamingRequest ''gpt-4o'' ''resp_1'' ''msg_1'' ''cp_1'' 0 0
        [hi_chunk, hi_chunk] (Stream_raised (Error_instance ''socket hang up''))))
       = [Ev_created, Ev_in_progress, Ev_output_item_added, Ev_content_part_added,
          Ev_output_text_delta, Ev_output_text_delta, Ev_error]
   \<and> map ev_error (filter (\<lambda>ev. ev_type ev = Ev_error)
        (fst (handleStreamingRequest ''gpt-4o'' ''resp_1'' ''msg_1'' ''cp_1'' 0 0
           [hi_chunk, hi_chunk] (Stream_raised (Error_instance ''socket hang up'')))))
       = [Some \<lparr> err_code = ''stream_error'', err_message = ''socket hang up'' \<rparr>]
   \<and> tag_count Ev_done
        (fst (handleStreamingRequest ''gpt-4o'' ''resp_1'' ''msg_1'' ''cp_1'' 0 0
           [hi_chunk, hi_chunk] (Stream_raised (Error_instance ''socket hang up'')))) = 0"
proof -
  have h: "\<forall>c \<in> set [hi_chunk, hi_chunk]. chunk_finish c = None"
    by simp
  note t = stream_error_exchange
              [OF h, of "''gpt-4o''" "''resp_1''" "''msg_1''" "''cp_1''" 0 0
                 "Error_instance ''socket hang up''"]
  have tags: "map ev_type (fst (handleStreamingRequest ''gpt-4o'' ''resp_1'' ''msg_1'' ''cp_1'' 0 0
        [hi_chunk, hi_chunk] (Stream_raised (Error_instance ''socket hang up''))))
       = [Ev_created, Ev_in_progress, Ev_output_item_added, Ev_content_part_added,
          Ev_output_text_delta, Ev_output_text_delta, Ev_error]"
    by (simp add: conjunct1 [OF t] translate_delta open_events_def after_content_def
          createStreamState_def)
  have err: "map ev_error (filter (\<lambda>ev. ev_type ev = Ev_error)
        (fst (handleStreamingRequest ''gpt-4o'' ''resp_1'' ''msg_1'' ''cp_1'' 0 0
           [hi_chunk, hi_chunk] (Stream_raised (Error_instance ''socket hang up'')))))
       = [Some \<lparr> err_code = ''stream_error'', err_message = ''socket hang up'' \<rparr>]"
    using conjunct1 [OF conjunct2 [OF t]] by simp
  have dn: "tag_count Ev_done
        (fst (handleStreamingRequest ''gpt-4o'' ''resp_1'' ''msg_1'' ''cp_1'' 0 0
           [hi_chunk, hi_chunk] (Stream_raised (Error_instance ''socket hang up'')))) = 0"
    using t by blast
  show ?thesis
    using tags err dn by simp
qed

subsection \<open>The frame of \<^verbatim>\<open>translateStreamChunk\<close>\<close>

lemma same_frame_after_content: "same_frame state (after_content state d)"
  by (simp add: same_frame_def after_content_def)

lemma translate_frame: "same_frame state (snd (translateStreamChunk chunk state))"
proof (cases "chunk_content chunk")
  case None
  then show ?thesis
    by (cases "chunk_finish chunk")
       (simp_all add: translate_inert translate_finish_only same_frame_def)
next
  case (Some d)
  then show ?thesis
    by (cases "chunk_finish chunk")
       (simp_all add: translate_delta translate_delta_finish same_frame_after_content)
qed

lemma exchange_state_frame:
  "exchange_state rid mid s \<Longrightarrow> same_frame s t \<Longrightarrow> exchange_state rid mid t"
  by (simp add: exchange_state_def same_frame_def)

lemma good_open_events:
  "exchange_state rid mid s \<Longrightarrow> \<forall>ev \<in> set (open_events s). good_event rid mid ev"
  by (simp add: open_events_def good_event_def event_ids_ok_def terminal_usage_zero_def
        output_item_added_event_def content_part_added_event_def blank_event_def
        exchange_state_def)

lemma good_delta: "good_event rid mid (output_text_delta_event d)"
  by (simp add: good_event_def event_ids_ok_def terminal_usage_zero_def
        output_text_delta_event_def blank_event_def)

lemma good_terminal_events:
  "exchange_state rid mid s \<Longrightarrow> \<forall>ev \<in> set (terminal_events fr s). good_event rid mid ev"
  by (simp add: terminal_events_def good_event_def event_ids_ok_def terminal_usage_zero_def
        output_text_done_event_def content_part_done_event_def output_item_done_event_def
        completed_event_def done_event_def finalResponse_def blank_event_def
        exchange_state_def)

lemma good_translate:
  assumes "exchange_state rid mid s"
  shows "\<forall>ev \<in> set (fst (translateStreamChunk chunk s)). good_event rid mid ev"
proof -
  have a: "exchange_state rid mid (after_content s d)" for d
    using assms same_frame_after_content by (rule exchange_state_frame)
  have b: "exchange_state rid mid (s \<lparr> hasStartedOutput := True \<rparr>)"
    using assms by (simp add: exchange_state_def)
  show ?thesis
  proof (cases "chunk_content chunk")
    case None
    then show ?thesis
      using good_open_events [OF assms] good_terminal_events [OF b]
      by (cases "chunk_finish chunk") (auto simp: translate_inert translate_finish_only)
  next
    case (Some d)
    then show ?thesis
      using good_open_events [OF assms] good_terminal_events [OF a] good_delta
      by (cases "chunk_finish chunk") (auto simp: translate_delta translate_delta_finish)
  qed
qed

lemma good_run_chunks:
  "exchange_state rid mid s \<Longrightarrow>
   (\<forall>ev \<in> set (fst (run_chunks cs s)). good_event rid mid ev)
   \<and> exchange_state rid mid (snd (run_chunks cs s))"
proof (induction cs arbitrary: s)
  case Nil
  then show ?case by simp
next
  case (Cons c cs)
  have nxt: "exchange_state rid mid (snd (translateStreamChunk c s))"
    using Cons.prems translate_frame by (rule exchange_state_frame)
  show ?case
    using good_translate [OF Cons.prems, of c] Cons.IH [OF nxt]
    by (auto split: prod.splits)
qed

lemma good_start_events:
  "good_event rid mid (createResponseCreatedEvent (createStreamState mdl rid mid cpid now))"
  "good_event rid mid (createResponseInProgressEvent (createStreamState mdl rid mid cpid now))"
  by (simp_all add: good_event_def event_ids_ok_def terminal_usage_zero_def
        createResponseCreatedEvent_def createResponseInProgressEvent_def initial_response_def
        createStreamState_def blank_event_def)

lemma good_error_event: "good_event rid mid (stream_error_event e)"
  by (simp add: good_event_def event_ids_ok_def terminal_usage_zero_def
        stream_error_event_def blank_event_def)

lemma good_exchange:
  "\<forall>ev \<in> set (fst (handleStreamingRequest mdl rid mid cpid now now' chunks fin)).
     good_event rid mid ev"
proof -
  have s0: "exchange_state rid mid (createStreamState mdl rid mid cpid now)"
    by (simp add: exchange_state_def createStreamState_def)
  note run = good_run_chunks [OF s0, of chunks]
  show ?thesis
  proof (cases fin)
    case Stream_closed
    then show ?thesis
      using run good_start_events [of rid mid mdl cpid now]
        good_translate [OF conjunct2 [OF run], of "empty_chunk mdl now'"]
      by (auto simp: handleStreamingRequest_def Let_def split: prod.splits)
  next
    case (Stream_raised e)
    then show ?thesis
      using run good_start_events [of rid mid mdl cpid now] good_error_event [of rid mid e]
      by (auto simp: handleStreamingRequest_def Let_def split: prod.splits)
  qed
qed

text \<open>
  Claim C9. For every chunk and every stream state, \<open>translateStreamChunk\<close> leaves
  \<open>responseId\<close>, \<open>messageId\<close>, \<open>contentPartId\<close>, \<open>model\<close>, \<open>createdAt\<close>,
  \<open>inputTokens\<close> and \<open>outputTokens\<close> unchanged (it writes \<open>accumulatedText\<close>,
  \<open>hasStartedOutput\<close> and \<open>hasAddedContentPart\<close> only). Hence every event of one
  exchange carries the response and message identifiers drawn at its start, and the
  usage counters of its completed and done events are 0, 0, 0.
\<close>

theorem translateStreamChunk_frame:
  "responseId (snd (translateStreamChunk chunk state)) = responseId state
   \<and> messageId (snd (translateStreamChunk chunk state)) = messageId state
   \<and> contentPartId (snd (translateStreamChunk chunk state)) = contentPartId state
   \<and> model (snd (translateStreamChunk chunk state)) = model state
   \<and> createdAt (snd (translateStreamChunk chunk state)) = createdAt state
   \<and> inputTokens (snd (translateStreamChunk chunk state)) = inputTokens state
   \<and> outputTokens (snd (translateStreamChunk chunk state)) = outputTokens state
   \<and> (\<forall>ev \<in> set (fst (handleStreamingRequest mdl rid mid cpid now now' chunks fin)).
         event_ids_ok rid mid ev \<and> terminal_usage_zero ev)"
  using translate_frame [of state chunk] good_exchange [of mdl rid mid cpid now now' chunks fin]
  by (simp add: same_frame_def good_event_def)

theorem translateStreamChunk_frame_witness:
  "responseId (snd (translateStreamChunk hi_chunk
       (createStreamState ''gpt-4o'' ''resp_1'' ''msg_1'' ''cp_1'' 5))) = ''resp_1''
   \<and> createdAt (snd (translateStreamChunk hi_chunk
       (createStreamState ''gpt-4o'' ''resp_1'' ''msg_1'' ''cp_1'' 5))) = 5
   \<and> last (fst (handleStreamingRequest ''gpt-4o'' ''resp_1'' ''msg_1'' ''cp_1'' 5 6
               ([hi_chunk] @ [stop_chunk]) Stream_closed))
       \<in> set (fst (handleStreamingRequest ''gpt-4o'' ''resp_1'' ''msg_1'' ''cp_1'' 5 6
               ([hi_chunk] @ [stop_chunk]) Stream_closed))
   \<and> ev_type (last (fst (handleStreamingRequest ''gpt-4o'' ''resp_1'' ''msg_1'' ''cp_1'' 5 6
               ([hi_chunk] @ [stop_chunk]) Stream_closed))) = Ev_done
   \<and> event_ids_ok ''resp_1'' ''msg_1''
        (last (fst (handleStreamingRequest ''gpt-4o'' ''resp_1'' ''msg_1'' ''cp_1'' 5 6
               ([hi_chunk] @ [stop_chunk]) Stream_closed)))
   \<and> map_option resp_usage
        (ev_response (last (fst (handleStreamingRequest ''gpt-4o'' ''resp_1'' ''msg_1'' ''cp_1'' 5 6
               ([hi_chunk] @ [stop_chunk]) Stream_closed))))
       = Some \<lparr> input_tokens = 0, output_tokens = 0, total_tokens = 0 \<rparr>"
proof -
  have h: "\<forall>c \<in> set [hi_chunk]. chunk_finish c = None" "chunk_finish stop_chunk = Some Stop"
    by simp_all
  have mem: "last (fst (handleStreamingRequest ''gpt-4o'' ''resp_1'' ''msg_1'' ''cp_1'' 5 6
               ([hi_chunk] @ [stop_chunk]) Stream_closed))
       \<in> set (fst (handleStreamingRequest ''gpt-4o'' ''resp_1'' ''msg_1'' ''cp_1'' 5 6
               ([hi_chunk] @ [stop_chunk]) Stream_closed))"
    and ty: "ev_type (last (fst (handleStreamingRequest ''gpt-4o'' ''resp_1'' ''msg_1'' ''cp_1'' 5 6
               ([hi_chunk] @ [stop_chunk]) Stream_closed))) = Ev_done"
    unfolding handle_finishing [OF h] Let_def
    by (simp_all add: terminal_events_def)
  note t = translateStreamChunk_frame
             [of hi_chunk "createStreamState ''gpt-4o'' ''resp_1'' ''msg_1'' ''cp_1'' 5"
                "''gpt-4o''" "''resp_1''" "''msg_1''" "''cp_1''" 5 6
                "[hi_chunk] @ [stop_chunk]" Stream_closed]
  have ev: "event_ids_ok ''resp_1'' ''msg_1''
        (last (fst (handleStreamingRequest ''gpt-4o'' ''resp_1'' ''msg_1'' ''cp_1'' 5 6
               ([hi_chunk] @ [stop_chunk]) Stream_closed)))"
    and tz: "terminal_usage_zero
        (last (fst (handleStreamingRequest ''gpt-4o'' ''resp_1'' ''msg_1'' ''cp_1'' 5 6
               ([hi_chunk] @ [stop_chunk]) Stream_closed)))"
    using t mem by blast+
  have fr: "responseId (snd (translateStreamChunk hi_chunk
       (createStreamState ''gpt-4o'' ''resp_1'' ''msg_1'' ''cp_1'' 5))) = ''resp_1''"
    "createdAt (snd (translateStreamChunk hi_chunk
       (createStreamState ''gpt-4o'' ''resp_1'' ''msg_1'' ''cp_1'' 5))) = 5"
    using t by (simp_all add: createStreamState_def)
  show ?thesis
    using fr mem ty ev tz by (simp add: terminal_usage_zero_def)
qed

subsection \<open>Status and error envelope\<close>

lemma translateError_invariant: "failed_iff_error (translateError rid now error)"
  by (cases error) (simp_all add: translateError_def failed_iff_error_def)

lemma mapFinishReason_cases:
  "mapFinishReasonToStatus (map_option finish_reason_str fr)
     = (if fr = Some Content_filter then Failed else Completed)"
  by (cases fr; cases "the fr") (simp_all add: mapFinishReasonToStatus_def)

lemma mapFinishReason_unknown:
  "r \<noteq> Some ''content_filter'' \<Longrightarrow> mapFinishReasonToStatus r = Completed"
  by (simp add: mapFinishReasonToStatus_def)

lemma translateResponse_invariant:
  assumes "translateResponse stringify mid rid chatResponse originalModel = Inr r"
  shows "failed_iff_error r \<longleftrightarrow>
           cc_finish_reason (hd (ccr_choices chatResponse)) \<noteq> Some Content_filter"
  using assms
  by (auto simp: translateResponse_def failed_iff_error_def mapFinishReason_cases Let_def
        split: list.splits if_splits)

text \<open>
  Claim C5 says that every response produced by \<open>translateResponse\<close> and
  \<open>translateError\<close> has status failed exactly when the error envelope is present.
  \<open>translateError\<close> keeps this, and so does \<open>translateResponse\<close> for every finish
  reason but one: for \<open>content_filter\<close> it sets the status failed and builds no error
  envelope.
\<close>

theorem translateResponse_content_filter_no_error:
  "translateResponse stringify ''msg_1'' ''resp_1'' filtered_response (Some ''gpt-4o'')
     = Inr \<lparr> resp_id = ''resp_1'', resp_created_at = 1700000000, resp_model = ''gpt-4o'',
             resp_status = Failed,
             resp_output = [\<lparr> msg_id = ''msg_1'', msg_content = [\<lparr> ot_text = [] \<rparr>] \<rparr>],
             resp_usage = \<lparr> input_tokens = 7, output_tokens = 0, total_tokens = 7 \<rparr>,
             resp_error = None \<rparr>
   \<and> \<not> failed_iff_error
         (projr (translateResponse stringify ''msg_1'' ''resp_1'' filtered_response
                   (Some ''gpt-4o'')))"
  by (simp add: translateResponse_def filtered_response_def mapFinishReasonToStatus_def
        failed_iff_error_def)

subsection \<open>Validation\<close>

text \<open>
  Claim C6 as stated fails: a payload whose \<open>model\<close> is present and a string and whose
  \<open>input\<close> is a string is rejected when the model is the empty string, because the
  test is \<^verbatim>\<open>!req.model\<close>.
\<close>

theorem validateRequest_empty_model_counterexample:
  "validateRequest (JObj [(''model'', JStr ''''), (''input'', JStr ''Say hi'')])
     = Inl (Error_instance (quoted ''model'' @ '' field is required and must be a string''))"
  by (simp add: validateRequest_def)

text \<open>
  Claim C6, amended. \<open>validateRequest\<close> fails with an error exactly when the raw
  payload is not an object, or \<open>model\<close> is missing, not a string or the empty string,
  or \<open>input\<close> is missing, null, or neither a string nor a sequence; for every other
  payload it succeeds and returns the payload unchanged.
\<close>

theorem validateRequest_accepts_iff:
  "(validateRequest request = Inr request) = acceptable request
   \<and> (\<exists>msg. validateRequest request = Inl (Error_instance msg)) = (\<not> acceptable request)"
proof (cases request)
  case (JObj props)
  then show ?thesis
    by (cases "get_prop request ''model''"; cases "get_prop request ''input''")
       (simp_all add: validateRequest_def acceptable_def)
qed (simp_all add: validateRequest_def acceptable_def)

theorem validateRequest_accepts_iff_witness:
  "acceptable (JObj [(''model'', JStr ''gpt-4o''), (''input'', JStr ''Say hi'')])
   \<and> validateRequest (JObj [(''model'', JStr ''gpt-4o''), (''input'', JStr ''Say hi'')])
       = Inr (JObj [(''model'', JStr ''gpt-4o''), (''input'', JStr ''Say hi'')])
   \<and> \<not> acceptable (JObj [(''model'', JStr ''gpt-4o'')])
   \<and> (\<exists>msg. validateRequest (JObj [(''model'', JStr ''gpt-4o'')]) = Inl (Error_instance msg))"
proof -
  have a: "acceptable (JObj [(''model'', JStr ''gpt-4o''), (''input'', JStr ''Say hi'')])"
    and b: "\<not> acceptable (JObj [(''model'', JStr ''gpt-4o'')])"
    by (simp_all add: acceptable_def)
  show ?thesis
    using a b
      validateRequest_accepts_iff
        [of "JObj [(''model'', JStr ''gpt-4o''), (''input'', JStr ''Say hi'')]"]
      validateRequest_accepts_iff [of "JObj [(''model'', JStr ''gpt-4o'')]"]
    by simp
qed

subsection \<open>Tools\<close>

lemma function_capable_filter:
  "map (\<lambda>t. \<lparr> ct_function =
                \<lparr> fn_name = fn_name (the (rt_function t)),
                  fn_description = fn_description (the (rt_function t)),
                  fn_parameters = fn_parameters (the (rt_function t)) \<rparr> \<rparr>)
       (filter (\<lambda>t. rt_type t = Tool_function \<and> rt_function t \<noteq> None) tools)
     = map (\<lambda>f. \<lparr> ct_function = f \<rparr>) (function_capable tools)"
  by (induction tools) (auto split: option.splits)

lemma function_capable_empty:
  "(filter (\<lambda>t. rt_type t = Tool_function \<and> rt_function t \<noteq> None) tools = [])
     = (function_capable tools = [])"
  by (induction tools) (auto split: option.splits)

lemma convertTools_function_capable:
  "convertTools tools =
     (if function_capable tools = [] then None
      else Some (map (\<lambda>f. \<lparr> ct_function = f \<rparr>) (function_capable tools)))"
  unfolding convertTools_def Let_def length_0_conv
    function_capable_filter [of tools] function_capable_empty [of tools]
  by (rule refl)

text \<open>
  Claim C7. \<open>translateRequest\<close> omits the tools field of the outbound request exactly
  when the function-capable subset of the declared tools is empty (in particular when
  the tools list is empty or absent); otherwise the outbound request carries the
  function-capable tools, each converted to a function tool with the same name,
  description and parameter schema, in their original order; every other tool is
  dropped.
\<close>

theorem translateRequest_tools:
  "(out_tools (translateRequest toLowerCase req) = None)
     = (function_capable (declared_tools req) = [])
   \<and> (function_capable (declared_tools req) \<noteq> [] \<longrightarrow>
        out_tools (translateRequest toLowerCase req)
          = Some (map (\<lambda>f. \<lparr> ct_function = f \<rparr>) (function_capable (declared_tools req))))"
  by (cases "req_tools req")
     (auto simp: translateRequest_def declared_tools_def convertTools_function_capable)

theorem translateRequest_tools_witness:
  "function_capable
      (declared_tools ((simple_request ''gpt-4o'' ''Say hi'') \<lparr> req_tools := Some example_tools \<rparr>))
     = [\<lparr> fn_name = ''lookup'', fn_description = None, fn_parameters = None \<rparr>]
   \<and> out_tools (translateRequest ascii_toLowerCase
        ((simple_request ''gpt-4o'' ''Say hi'') \<lparr> req_tools := Some example_tools \<rparr>))
     = Some [\<lparr> ct_function = \<lparr> fn_name = ''lookup'', fn_description = None,
                                 fn_parameters = None \<rparr> \<rparr>]
   \<and> out_tools (translateRequest ascii_toLowerCase
        ((simple_request ''gpt-4o'' ''Say hi'') \<lparr> req_tools := Some [] \<rparr>)) = None"
proof -
  have fc: "function_capable
      (declared_tools ((simple_request ''gpt-4o'' ''Say hi'') \<lparr> req_tools := Some example_tools \<rparr>))
     = [\<lparr> fn_name = ''lookup'', fn_description = None, fn_parameters = None \<rparr>]"
    by (simp add: declared_tools_def simple_request_def example_tools_def)
  have fe: "function_capable
      (declared_tools ((simple_request ''gpt-4o'' ''Say hi'') \<lparr> req_tools := Some [] \<rparr>)) = []"
    by (simp add: declared_tools_def simple_request_def)
  show ?thesis
    using translateRequest_tools
            [of ascii_toLowerCase "(simple_request ''gpt-4o'' ''Say hi'') \<lparr> req_tools := Some example_tools \<rparr>"]
          translateRequest_tools
            [of ascii_toLowerCase "(simple_request ''gpt-4o'' ''Say hi'') \<lparr> req_tools := Some [] \<rparr>"]
    by (simp add: fc fe)
qed

subsection \<open>Messages for a string input\<close>

text \<open>
  Claim C8 as stated fails: with \<open>instructions\<close> set to the empty string there is no
  system message, because the test is \<^verbatim>\<open>if (instructions)\<close>.
\<close>

theorem translateRequest_empty_instructions_counterexample:
  "req_instructions ((simple_request ''gpt-4o'' ''Say hi'') \<lparr> req_instructions := Some '''' \<rparr>)
     = Some ''''
   \<and> out_messages (translateRequest ascii_toLowerCase
        ((simple_request ''gpt-4o'' ''Say hi'') \<lparr> req_instructions := Some '''' \<rparr>))
     = [plain_message Role_user (Chat_text ''Say hi'')]"
  by (simp add: translateRequest_def convertInputToMessages_def simple_request_def)

text \<open>
  Claim C8, amended. For every request whose input is a string, the messages of the
  translated request are exactly one user-role message whose content is the input
  string, preceded by a system-role message carrying the instructions text iff
  \<open>instructions\<close> was set to a non-empty string.
\<close>

theorem translateRequest_string_input:
  assumes "req_input req = Input_string s"
  shows "out_messages (translateRequest toLowerCase req)
     = (case req_instructions req of
          None \<Rightarrow> []
        | Some i \<Rightarrow> if i = [] then [] else [plain_message Role_system (Chat_text i)])
       @ [plain_message Role_user (Chat_text s)]"
  using assms
  by (cases "req_instructions req")
     (simp_all add: translateRequest_def convertInputToMessages_def)

theorem translateRequest_string_input_witness:
  "req_input ((simple_request ''gpt-4o'' ''Say hi'') \<lparr> req_instructions := Some ''Be brief'' \<rparr>)
     = Input_string ''Say hi''
   \<and> out_messages (translateRequest ascii_toLowerCase
        ((simple_request ''gpt-4o'' ''Say hi'') \<lparr> req_instructions := Some ''Be brief'' \<rparr>))
     = [plain_message Role_system (Chat_text ''Be brief''),
        plain_message Role_user (Chat_text ''Say hi'')]
   \<and> out_messages (translateRequest ascii_toLowerCase (simple_request ''gpt-4o'' ''Say hi''))
     = [plain_message Role_user (Chat_text ''Say hi'')]"
proof -
  have a: "req_input ((simple_request ''gpt-4o'' ''Say hi'') \<lparr> req_instructions := Some ''Be brief'' \<rparr>)
     = Input_string ''Say hi''"
    and b: "req_input (simple_request ''gpt-4o'' ''Say hi'') = Input_string ''Say hi''"
    by (simp_all add: simple_request_def)
  show ?thesis
    using a translateRequest_string_input [OF a] translateRequest_string_input [OF b]
    by (simp add: simple_request_def)
qed

end
